theory Spec2Isabelle
  imports Complex_Main
begin

section \<open>Python values used by the proxy\<close>

text \<open>
  Byte strings are lists of 8-bit characters. Python floats are modelled by real numbers:
  the token arithmetic of the relay is exact here, rounding is not represented.
\<close>

type_synonym bytes = string

text \<open>
  The exceptions the awaited operations can raise, by the classes the handlers of
  \<^verbatim>\<open>bandwidth_proxy.py\<close> tell apart: \<^verbatim>\<open>asyncio.CancelledError\<close> (a
  \<^verbatim>\<open>BaseException\<close>, not caught by \<^verbatim>\<open>except Exception\<close>),
  \<^verbatim>\<open>ConnectionResetError\<close>, and every other subclass of \<^verbatim>\<open>Exception\<close>.
\<close>

datatype exn = CancelledError | ConnectionResetError | OtherException

text \<open>\<^verbatim>\<open>int(x)\<close> on a float truncates towards zero.\<close>

definition py_int :: "real \<Rightarrow> int" where
  "py_int x = (if 0 \<le> x then \<lfloor>x\<rfloor> else \<lceil>x\<rceil>)"

section \<open>The relay: \<^verbatim>\<open>token_bucket_copy\<close>\<close>

definition KBPS_TO_BPS :: real where
  "KBPS_TO_BPS = 1000"

definition bytes_per_second :: "real \<Rightarrow> real" where
  "bytes_per_second rate_kbps = (rate_kbps * KBPS_TO_BPS) / 8"

definition max_chunk :: int where
  "max_chunk = 16 * 1024"

text \<open>
  The world the relay runs in. Each awaited call and each clock reading is answered by the
  environment; the \<open>k\<close>-th call of an operation gets the \<open>k\<close>-th answer.
  \<^item> \<open>read_result\<close>: what \<^verbatim>\<open>reader.read(8192)\<close> finds available, or the exception it raises;
  \<^item> \<open>monotonic\<close>: the readings of \<^verbatim>\<open>time.monotonic()\<close>;
  \<^item> \<open>drain_result\<close>: \<open>None\<close> when \<^verbatim>\<open>writer.drain()\<close> completes, else the exception raised;
  \<^item> \<open>sleep_result\<close>: the same for \<^verbatim>\<open>asyncio.sleep(0.01)\<close>.
  \<^verbatim>\<open>writer.write\<close> and \<^verbatim>\<open>writer.close\<close> are not awaited: they hand the bytes, or the
  request to close, to the transport and return.
\<close>

record relay_env =
  read_result :: "nat \<Rightarrow> exn + bytes"
  monotonic :: "nat \<Rightarrow> real"
  drain_result :: "nat \<Rightarrow> exn option"
  sleep_result :: "nat \<Rightarrow> exn option"

text \<open>
  How a run of the relay ended. \<open>Refused\<close>, \<open>Eof\<close>, \<open>Reset\<close> and \<open>Swallowed\<close> are the ways
  the coroutine returns \<^verbatim>\<open>None\<close>: the early return for a rate \<open>\<le> 0\<close>, the
  \<^verbatim>\<open>break\<close> on a zero-length read, the \<^verbatim>\<open>return\<close> on a reset during drain, and
  \<^verbatim>\<open>except Exception: pass\<close>. \<open>Propagated e\<close> is the coroutine raising \<open>e\<close>.
\<close>

datatype ending = Refused | Eof | Reset | Swallowed exn | Propagated exn

datatype pc = Reading | Flushing | Finished ending

text \<open>
  The local variables of the coroutine, what it has done to its two streams
  (\<open>received\<close>: the results of the reads, \<open>written\<close>: the arguments of
  \<^verbatim>\<open>writer.write\<close>, \<open>writer_closed\<close>: \<^verbatim>\<open>writer.close()\<close> was called), and how
  many answers of each kind it has used. \<open>Reading\<close> is the head of the outer loop,
  \<open>Flushing\<close> the head of the inner one.
\<close>

record relay =
  pc :: pc
  tokens :: real
  last_ts :: real
  data :: bytes
  idx :: nat
  written :: "bytes list"
  received :: "bytes list"
  writer_closed :: bool
  n_read :: nat
  n_clock :: nat
  n_drain :: nat
  n_sleep :: nat

definition blank :: relay where
  "blank = \<lparr>pc = Reading, tokens = 0, last_ts = 0, data = [], idx = 0, written = [],
            received = [], writer_closed = False, n_read = 0, n_clock = 0, n_drain = 0,
            n_sleep = 0\<rparr>"

text \<open>Lines 77 to 81: accumulate, then cap at two seconds' worth.\<close>

definition refill :: "real \<Rightarrow> real \<Rightarrow> real \<Rightarrow> real" where
  "refill bps elapsed tk =
     (let t = tk + elapsed * bps in if t > 2 * bps then 2 * bps else t)"

text \<open>Line 83: \<^verbatim>\<open>int(min(tokens, max_chunk, len(data) - idx))\<close>.\<close>

definition allowed_bytes :: "real \<Rightarrow> nat \<Rightarrow> int" where
  "allowed_bytes tk remaining = py_int (min tk (min (of_int max_chunk) (of_nat remaining)))"

text \<open>An exception that reaches the handlers at the end of the \<^verbatim>\<open>try\<close> block.\<close>

definition at_boundary :: "exn \<Rightarrow> ending" where
  "at_boundary e = (if e = CancelledError then Propagated e else Swallowed e)"

text \<open>One pass through the head of the outer loop (lines 68 to 71).\<close>

definition read_step :: "relay_env \<Rightarrow> relay \<Rightarrow> relay" where
  "read_step env s =
     (let s1 = s\<lparr>n_read := Suc (n_read s)\<rparr> in
      case read_result env (n_read s) of
        Inl e \<Rightarrow> s1\<lparr>pc := Finished (at_boundary e)\<rparr>
      | Inr avail \<Rightarrow>
          (let d = take 8192 avail in
           if d = [] then s1\<lparr>pc := Finished Eof\<rparr>
           else s1\<lparr>data := d, idx := 0, received := received s @ [d], pc := Flushing\<rparr>))"

text \<open>One pass through the inner loop (lines 72 to 98).\<close>

definition flush_step :: "relay_env \<Rightarrow> real \<Rightarrow> relay \<Rightarrow> relay" where
  "flush_step env bps s =
     (if \<not> idx s < length (data s) then s\<lparr>pc := Reading\<rparr>
      else
        let now = monotonic env (n_clock s);
            elapsed = now - last_ts s;
            tk = refill bps elapsed (tokens s);
            s1 = s\<lparr>n_clock := Suc (n_clock s), last_ts := now, tokens := tk\<rparr>;
            allowed = allowed_bytes tk (length (data s) - idx s)
        in
          if allowed \<le> 0 then
            (case sleep_result env (n_sleep s) of
               None \<Rightarrow> s1\<lparr>n_sleep := Suc (n_sleep s)\<rparr>
             | Some e \<Rightarrow> s1\<lparr>n_sleep := Suc (n_sleep s), pc := Finished (at_boundary e)\<rparr>)
          else
            let chunk = take (nat allowed) (drop (idx s) (data s));
                s2 = s1\<lparr>written := written s @ [chunk], n_drain := Suc (n_drain s)\<rparr>
            in
              case drain_result env (n_drain s) of
                None \<Rightarrow> s2\<lparr>idx := idx s + nat allowed, tokens := tk - of_int allowed\<rparr>
              | Some e \<Rightarrow>
                  s2\<lparr>pc := Finished (if e = ConnectionResetError then Reset
                                       else at_boundary e)\<rparr>)"

definition relay_step :: "relay_env \<Rightarrow> real \<Rightarrow> relay \<Rightarrow> relay" where
  "relay_step env bps s =
     (case pc s of
        Reading \<Rightarrow> read_step env s
      | Flushing \<Rightarrow> flush_step env bps s
      | Finished e \<Rightarrow> s)"

text \<open>
  Lines 48 to 64: the early return for a rate \<open>\<le> 0\<close> (its \<^verbatim>\<open>drain\<close> is outside the
  \<^verbatim>\<open>try\<close> block), else the initial bucket and the first clock reading.
\<close>

definition relay_start :: "relay_env \<Rightarrow> real \<Rightarrow> relay" where
  "relay_start env rate_kbps =
     (if rate_kbps \<le> 0 then
        (case drain_result env 0 of
           None \<Rightarrow> blank\<lparr>n_drain := 1, writer_closed := True, pc := Finished Refused\<rparr>
         | Some e \<Rightarrow> blank\<lparr>n_drain := 1, pc := Finished (Propagated e)\<rparr>)
      else
        blank\<lparr>tokens := bytes_per_second rate_kbps, last_ts := monotonic env 0,
              n_clock := 1, pc := Reading\<rparr>)"

text \<open>
  The coroutine after \<open>n\<close> passes through a loop head. Either loop can go on for ever
  (a source that never ends, a clock that never advances), so a run is observed after
  any number of passes; a finished run stays as it is.
\<close>

primrec token_bucket_copy :: "relay_env \<Rightarrow> real \<Rightarrow> nat \<Rightarrow> relay" where
  "token_bucket_copy env rate_kbps 0 = relay_start env rate_kbps"
| "token_bucket_copy env rate_kbps (Suc n) =
     relay_step env (bytes_per_second rate_kbps) (token_bucket_copy env rate_kbps n)"

definition relay_result :: "relay_env \<Rightarrow> real \<Rightarrow> nat \<Rightarrow> ending option" where
  "relay_result env rate_kbps n =
     (case pc (token_bucket_copy env rate_kbps n) of Finished e \<Rightarrow> Some e | _ \<Rightarrow> None)"

text \<open>What the caller of the coroutine sees: a return, or an exception.\<close>

fun raises :: "ending \<Rightarrow> exn option" where
  "raises (Propagated e) = Some e"
| "raises _ = None"

definition capacity :: "real \<Rightarrow> real" where
  "capacity bps = 2 * bps"


text \<open>\<^verbatim>\<open>time.monotonic()\<close> never goes backwards.\<close>

definition clock_ok :: "relay_env \<Rightarrow> bool" where
  "clock_ok env = (\<forall>k. monotonic env k \<le> monotonic env (Suc k))"

section \<open>Text operations of the request handler\<close>

text \<open>
  Requests are taken to be ASCII, as the header syntax of HTTP/1.1 is. On such bytes
  \<^verbatim>\<open>decode(errors="ignore")\<close> is the identity; a byte above \<open>0x7F\<close> that belongs to no
  valid UTF-8 sequence is dropped. Code points beyond ASCII are not represented.
\<close>

definition decode_ignore :: "bytes \<Rightarrow> string" where
  "decode_ignore bs = filter (\<lambda>c. (of_char c :: nat) < 128) bs"

text \<open>\<^verbatim>\<open>str.isspace\<close> on ASCII: tab to carriage return, the four separators, the space.\<close>

definition is_space :: "char \<Rightarrow> bool" where
  "is_space c = (let n = (of_char c :: nat) in (9 \<le> n \<and> n \<le> 13) \<or> (28 \<le> n \<and> n \<le> 32))"

definition strip :: "string \<Rightarrow> string" where
  "strip s = rev (dropWhile is_space (rev (dropWhile is_space s)))"

text \<open>\<^verbatim>\<open>s.split()\<close>: the maximal runs of characters that are not whitespace.\<close>

fun split_from :: "string \<Rightarrow> string \<Rightarrow> string list" where
  "split_from cur [] = (if cur = [] then [] else [rev cur])"
| "split_from cur (c # cs) =
     (if is_space c then (if cur = [] then split_from [] cs else rev cur # split_from [] cs)
      else split_from (c # cur) cs)"

definition split :: "string \<Rightarrow> string list" where
  "split s = split_from [] s"

definition upper_char :: "char \<Rightarrow> char" where
  "upper_char c = (let n = (of_char c :: nat) in if 97 \<le> n \<and> n \<le> 122 then char_of (n - 32) else c)"

definition lower_char :: "char \<Rightarrow> char" where
  "lower_char c = (let n = (of_char c :: nat) in if 65 \<le> n \<and> n \<le> 90 then char_of (n + 32) else c)"

definition upper :: "string \<Rightarrow> string" where
  "upper s = map upper_char s"

definition lower :: "string \<Rightarrow> string" where
  "lower s = map lower_char s"

definition startswith :: "string \<Rightarrow> string \<Rightarrow> bool" where
  "startswith s p = (take (length p) s = p)"

text \<open>The two parts of \<^verbatim>\<open>s.split(':', 1)\<close> when \<open>s\<close> has a colon; \<open>before_colon\<close> is also
  \<^verbatim>\<open>s.split(':')[0]\<close>, for any \<open>s\<close>.\<close>

definition has_colon :: "string \<Rightarrow> bool" where
  "has_colon s = (CHR '':'' \<in> set s)"

definition before_colon :: "string \<Rightarrow> string" where
  "before_colon s = takeWhile (\<lambda>c. c \<noteq> CHR '':'') s"

definition after_colon :: "string \<Rightarrow> string" where
  "after_colon s = drop 1 (dropWhile (\<lambda>c. c \<noteq> CHR '':'') s)"

text \<open>\<^verbatim>\<open>text.split('\r\n')\<close>.\<close>

fun split_crlf_from :: "string \<Rightarrow> string \<Rightarrow> string list" where
  "split_crlf_from cur [] = [rev cur]"
| "split_crlf_from cur [c] = [rev (c # cur)]"
| "split_crlf_from cur (c # d # cs) =
     (if c = CHR 0x0D \<and> d = CHR 0x0A then rev cur # split_crlf_from [] cs
      else split_crlf_from (c # cur) (d # cs))"

definition split_crlf :: "string \<Rightarrow> string list" where
  "split_crlf s = split_crlf_from [] s"

text \<open>
  \<^verbatim>\<open>int(s)\<close> on a string: surrounding whitespace, an optional sign, decimal digits with
  single underscores between them. \<open>None\<close> is the \<^verbatim>\<open>ValueError\<close>.
\<close>

definition is_digit :: "char \<Rightarrow> bool" where
  "is_digit c = (let n = (of_char c :: nat) in 48 \<le> n \<and> n \<le> 57)"

fun digits :: "bool \<Rightarrow> nat \<Rightarrow> string \<Rightarrow> nat option" where
  "digits after_digit acc [] = (if after_digit then Some acc else None)"
| "digits after_digit acc (c # cs) =
     (if is_digit c then digits True (10 * acc + (of_char c - 48)) cs
      else if c = CHR ''_'' \<and> after_digit then digits False acc cs
      else None)"

definition int_of_str :: "string \<Rightarrow> int option" where
  "int_of_str s =
     (case strip s of
        [] \<Rightarrow> None
      | c # cs \<Rightarrow>
          if c = CHR ''-'' then map_option (\<lambda>n. - int n) (digits False 0 cs)
          else if c = CHR ''+'' then map_option int (digits False 0 cs)
          else map_option int (digits False 0 (c # cs)))"

section \<open>The request handler: \<^verbatim>\<open>handle_client\<close> and \<^verbatim>\<open>handle_tunnel\<close>\<close>

text \<open>
  The world of one accepted connection.
  \<^item> \<open>request_lines\<close>: the results of the successive \<^verbatim>\<open>reader.readuntil(b"\r\n")\<close>
    calls, a line with its terminator or the exception raised. The client's transmission
    is finite: after the last entry the stream is at its end, where \<^verbatim>\<open>readuntil\<close>
    raises \<^verbatim>\<open>IncompleteReadError\<close>.
  \<^item> \<open>client_drain\<close>: the result of the \<open>k\<close>-th \<^verbatim>\<open>writer.drain()\<close> on the client stream.
  \<^item> \<open>open_connection\<close>: \<open>None\<close> when \<^verbatim>\<open>asyncio.open_connection(host, port)\<close> connects.
  \<^item> \<open>remote_drain\<close>: the result of draining the forwarded header block.
\<close>

record client_env =
  request_lines :: "(exn + bytes) list"
  client_drain :: "nat \<Rightarrow> exn option"
  open_connection :: "string \<Rightarrow> int \<Rightarrow> exn option"
  remote_drain :: "exn option"

text \<open>What the handler does to the outside, in order.\<close>

datatype event =
    ClientWrite bytes
  | ClientClose
  | Connect string int
  | RemoteWrite bytes

text \<open>
  How the handler ends: it returns, it raises, or it has connected and started the two
  relay tasks towards \<open>host\<close> and \<open>port\<close> (what follows is the relay's business).
\<close>

datatype outcome = Returned | Raised exn | Relaying string int

definition CRLF :: bytes where
  "CRLF = [CHR 0x0D, CHR 0x0A]"

definition status_200 :: bytes where
  "status_200 = ''HTTP/1.1 200 Connection established'' @ CRLF @ CRLF"

definition status_400 :: bytes where
  "status_400 = ''HTTP/1.1 400 Bad Request'' @ CRLF @ CRLF"

definition status_502 :: bytes where
  "status_502 = ''HTTP/1.1 502 Bad Gateway'' @ CRLF @ CRLF"

text \<open>Lines 176 to 184: the header block, or the cancellation that interrupts the loop.\<close>

fun read_headers :: "bytes \<Rightarrow> (exn + bytes) list \<Rightarrow> exn + bytes" where
  "read_headers headers [] = Inr headers"
| "read_headers headers (Inl e # rest) = (if e = CancelledError then Inl e else Inr headers)"
| "read_headers headers (Inr line # rest) =
     (if line = CRLF then Inr (headers @ line) else read_headers (headers @ line) rest)"

text \<open>Lines 124 to 138, with the client drains numbered from \<open>k\<close>.\<close>

definition handle_tunnel ::
  "client_env \<Rightarrow> nat \<Rightarrow> string \<Rightarrow> int \<Rightarrow> outcome \<times> event list" where
  "handle_tunnel env k target_host target_port =
     (case open_connection env target_host target_port of
        None \<Rightarrow> (Relaying target_host target_port, [Connect target_host target_port])
      | Some e \<Rightarrow>
          if e = CancelledError then (Raised e, [Connect target_host target_port])
          else if client_drain env k = Some CancelledError then
            (Raised CancelledError, [Connect target_host target_port, ClientWrite status_502])
          else
            (Returned, [Connect target_host target_port, ClientWrite status_502, ClientClose]))"

text \<open>Lines 212 to 216: the value of the first line that begins with \<^verbatim>\<open>host:\<close>.\<close>

fun find_host_header :: "string list \<Rightarrow> string option" where
  "find_host_header [] = None"
| "find_host_header (line # lines) =
     (if startswith (lower line) ''host:'' then Some (strip (after_colon line))
      else find_host_header lines)"

text \<open>Lines 193 to 208.\<close>

definition connect_request :: "client_env \<Rightarrow> string \<Rightarrow> outcome \<times> event list" where
  "connect_request env target =
     (let host = (if has_colon target then before_colon target else target);
          port = (if has_colon target
                  then (case int_of_str (after_colon target) of Some p \<Rightarrow> p | None \<Rightarrow> 443)
                  else 443)
      in case client_drain env 0 of
           Some e \<Rightarrow> (Raised e, [ClientWrite status_200])
         | None \<Rightarrow>
             (let (res, evs) = handle_tunnel env 1 host port
              in (res, ClientWrite status_200 # evs)))"

text \<open>Lines 210 to 245.\<close>

definition forward_request :: "client_env \<Rightarrow> bytes \<Rightarrow> outcome \<times> event list" where
  "forward_request env headers =
     (let hdr_text = decode_ignore headers;
          host_header = find_host_header (split_crlf hdr_text)
      in
        if host_header = None \<or> host_header = Some [] then
          (case client_drain env 0 of
             Some e \<Rightarrow> (Raised e, [ClientWrite status_400])
           | None \<Rightarrow> (Returned, [ClientWrite status_400, ClientClose]))
        else
          let hh = the host_header;
              target_host = before_colon hh;
              target_port = (if has_colon hh
                             then (case int_of_str (after_colon hh) of Some p \<Rightarrow> p | None \<Rightarrow> 80)
                             else 80)
          in
            case open_connection env target_host target_port of
              Some e \<Rightarrow>
                if e = CancelledError then (Raised e, [Connect target_host target_port])
                else
                  (case client_drain env 0 of
                     Some e' \<Rightarrow>
                       (Raised e', [Connect target_host target_port, ClientWrite status_502])
                   | None \<Rightarrow>
                       (Returned, [Connect target_host target_port, ClientWrite status_502,
                                   ClientClose]))
            | None \<Rightarrow>
                (case remote_drain env of
                   Some e \<Rightarrow>
                     (Raised e, [Connect target_host target_port, RemoteWrite headers])
                 | None \<Rightarrow>
                     (Relaying target_host target_port,
                      [Connect target_host target_port, RemoteWrite headers])))"

text \<open>
  Lines 167 to 192, the classification of the request: the method and the target with the
  captured header block, or the way the handler ended before it had them.
\<close>

datatype request = Request string string bytes | Dropped outcome "event list"

definition read_request :: "client_env \<Rightarrow> request" where
  "read_request env =
     (case request_lines env of
        [] \<Rightarrow> Dropped Returned [ClientClose]
      | Inl e # rest \<Rightarrow>
          if e = CancelledError then Dropped (Raised e) [] else Dropped Returned [ClientClose]
      | Inr header # rest \<Rightarrow>
          (let first_line = strip (decode_ignore header) in
           case read_headers header rest of
             Inl e \<Rightarrow> Dropped (Raised e) []
           | Inr headers \<Rightarrow>
               (let parts = split first_line in
                if length parts < 2 then Dropped Returned [ClientClose]
                else Request (upper (parts ! 0)) (parts ! 1) headers)))"

definition handle_client :: "client_env \<Rightarrow> outcome \<times> event list" where
  "handle_client env =
     (case read_request env of
        Dropped res evs \<Rightarrow> (res, evs)
      | Request method target headers \<Rightarrow>
          if method = ''CONNECT'' then connect_request env target
          else forward_request env headers)"

section \<open>Invariants, the specification's formulas and example runs\<close>

text \<open>The bucket between two passes: within its bounds, and not ahead of the clock.\<close>

definition bucket_inv :: "relay_env \<Rightarrow> real \<Rightarrow> relay \<Rightarrow> bool" where
  "bucket_inv env bps s =
     (0 \<le> tokens s \<and> tokens s \<le> capacity bps \<and> last_ts s \<le> monotonic env (n_clock s))"




text \<open>The bytes written so far and the unsent rest of the current read make up the bytes read.\<close>

definition flow_inv :: "relay \<Rightarrow> bool" where
  "flow_inv s =
     (case pc s of
        Reading \<Rightarrow> concat (written s) = concat (received s)
      | Flushing \<Rightarrow> idx s \<le> length (data s)
                    \<and> concat (written s) @ drop (idx s) (data s) = concat (received s)
      | Finished e \<Rightarrow> (e = Eof \<or> e = Refused) \<longrightarrow> concat (written s) = concat (received s))"

text \<open>An environment in which no awaited operation raises.\<close>

definition error_free :: "relay_env \<Rightarrow> bool" where
  "error_free env =
     (\<forall>k. (\<exists>bs. read_result env k = Inr bs) \<and> drain_result env k = None
          \<and> sleep_result env k = None)"

definition ends_cleanly :: "relay \<Rightarrow> bool" where
  "ends_cleanly s = (\<forall>e. pc s = Finished e \<longrightarrow> e = Eof \<or> e = Refused)"

definition only_cancel :: "relay \<Rightarrow> bool" where
  "only_cancel s = (\<forall>e. pc s = Finished (Propagated e) \<longrightarrow> e = CancelledError)"

text \<open>The specification's grant: \<open>floor(min(tokens, max_chunk_size, len))\<close>.\<close>

definition affordable :: "real \<Rightarrow> int \<Rightarrow> nat \<Rightarrow> int" where
  "affordable tk max_chunk_size len = \<lfloor>min tk (min (of_int max_chunk_size) (of_nat len))\<rfloor>"


text \<open>
  A source that delivers eleven bytes and then ends, a clock that advances one second
  per reading, a sink that never fails.
\<close>

definition steady_env :: relay_env where
  "steady_env = \<lparr>read_result = (\<lambda>k. if k = 0 then Inr ''hello world'' else Inr []),
                  monotonic = (\<lambda>k. of_nat k), drain_result = (\<lambda>k. None),
                  sleep_result = (\<lambda>k. None)\<rparr>"

text \<open>A source that always has a byte ready, with the same clock and sink.\<close>

definition trickle_env :: relay_env where
  "trickle_env = \<lparr>read_result = (\<lambda>k. Inr ''x''), monotonic = (\<lambda>k. of_nat k),
                   drain_result = (\<lambda>k. None), sleep_result = (\<lambda>k. None)\<rparr>"

text \<open>A sink whose connection is already lost: every drain raises \<^verbatim>\<open>ConnectionResetError\<close>.\<close>

definition lost_env :: relay_env where
  "lost_env = \<lparr>read_result = (\<lambda>k. Inr []), monotonic = (\<lambda>k. 0),
                drain_result = (\<lambda>k. Some ConnectionResetError), sleep_result = (\<lambda>k. None)\<rparr>"



text \<open>What was written to the client, and the outbound connections attempted, in order.\<close>

fun client_writes :: "event list \<Rightarrow> bytes list" where
  "client_writes [] = []"
| "client_writes (ClientWrite b # evs) = b # client_writes evs"
| "client_writes (ev # evs) = client_writes evs"

fun connect_attempts :: "event list \<Rightarrow> (string \<times> int) list" where
  "connect_attempts [] = []"
| "connect_attempts (Connect h p # evs) = (h, p) # connect_attempts evs"
| "connect_attempts (ev # evs) = connect_attempts evs"

text \<open>
  Four clients whose writes all drain: a \<^verbatim>\<open>CONNECT\<close> to a target that cannot be reached,
  a \<^verbatim>\<open>GET\<close> without a \<^verbatim>\<open>Host\<close> line, one whose \<^verbatim>\<open>Host\<close> line has a blank value,
  and one with two \<^verbatim>\<open>Host\<close> lines of which only the second is blank (the target accepts).
\<close>

definition unreachable_env :: client_env where
  "unreachable_env =
     \<lparr>request_lines = [Inr (''CONNECT example.invalid:443 HTTP/1.1'' @ CRLF), Inr CRLF],
      client_drain = (\<lambda>k. None),
      open_connection = (\<lambda>h p. Some OtherException),
      remote_drain = None\<rparr>"




section \<open>Properties of the relay\<close>

lemmas relay_defs = relay_step_def read_step_def flush_step_def relay_start_def blank_def
  bytes_per_second_def KBPS_TO_BPS_def refill_def allowed_bytes_def py_int_def max_chunk_def
  at_boundary_def Let_def

subsection \<open>The grant and the refill\<close>

lemma py_int_mono_bound: "x \<le> of_int k \<Longrightarrow> 0 \<le> k \<Longrightarrow> py_int x \<le> k"
  by (auto simp: py_int_def floor_le_iff ceiling_le_iff)

lemma allowed_le_remaining: "allowed_bytes tk r \<le> int r"
  unfolding allowed_bytes_def
  by (rule py_int_mono_bound) auto

lemma allowed_le_max_chunk: "allowed_bytes tk r \<le> max_chunk"
  unfolding allowed_bytes_def
  by (rule py_int_mono_bound) (auto simp: max_chunk_def)

lemma allowed_le_tokens: "0 < allowed_bytes tk r \<Longrightarrow> of_int (allowed_bytes tk r) \<le> tk"
  unfolding allowed_bytes_def py_int_def
  by (auto split: if_splits simp: min_def)

lemma allowed_is_affordable: "0 \<le> tk \<Longrightarrow> allowed_bytes tk r = affordable tk 16384 r"
  by (simp add: allowed_bytes_def affordable_def py_int_def max_chunk_def)

lemma chunk_length:
  assumes "0 < allowed_bytes tk (length xs - i)"
  shows "length (take (nat (allowed_bytes tk (length xs - i))) (drop i xs))
         = nat (allowed_bytes tk (length xs - i))"
proof -
  have "nat (allowed_bytes tk (length xs - i)) \<le> length xs - i"
    using allowed_le_remaining[of tk "length xs - i"] by linarith
  then show ?thesis by simp
qed

lemma refill_le_capacity: "0 < bps \<Longrightarrow> tk \<le> 2 * bps \<Longrightarrow> refill bps el tk \<le> 2 * bps"
  by (simp add: refill_def Let_def)

lemma refill_nonneg: "0 < bps \<Longrightarrow> 0 \<le> tk \<Longrightarrow> 0 \<le> el \<Longrightarrow> 0 \<le> refill bps el tk"
  by (simp add: refill_def Let_def)



lemma bps_pos: "0 < rate_kbps \<Longrightarrow> 0 < bytes_per_second rate_kbps"
  by (simp add: bytes_per_second_def KBPS_TO_BPS_def)

lemma steady_clock_ok: "clock_ok steady_env"
  by (simp add: clock_ok_def steady_env_def)

lemma trickle_clock_ok: "clock_ok trickle_env"
  by (simp add: clock_ok_def trickle_env_def)

subsection \<open>The bucket stays within its bounds\<close>

lemma bucket_inv_read_step: "bucket_inv env bps s \<Longrightarrow> bucket_inv env bps (read_step env s)"
  by (auto simp: bucket_inv_def read_step_def Let_def split: sum.splits)

lemma bucket_inv_flush_step:
  assumes ck: "clock_ok env" and pos: "0 < bps" and inv: "bucket_inv env bps s"
  shows "bucket_inv env bps (flush_step env bps s)"
proof (cases "idx s < length (data s)")
  case False
  with inv show ?thesis by (simp add: flush_step_def bucket_inv_def)
next
  case True
  define now where "now = monotonic env (n_clock s)"
  define tk where "tk = refill bps (now - last_ts s) (tokens s)"
  define a where "a = allowed_bytes tk (length (data s) - idx s)"
  from inv have el: "0 \<le> now - last_ts s" and t0: "0 \<le> tokens s" and t1: "tokens s \<le> 2 * bps"
    by (simp_all add: bucket_inv_def now_def capacity_def)
  have tk0: "0 \<le> tk" unfolding tk_def using pos t0 el by (rule refill_nonneg)
  have tk1: "tk \<le> 2 * bps" unfolding tk_def using pos t1 by (rule refill_le_capacity)
  have nxt: "now \<le> monotonic env (Suc (n_clock s))"
    using ck by (simp add: clock_ok_def now_def)
  have deb: "0 < a \<Longrightarrow> 0 \<le> tk - of_int a \<and> tk - of_int a \<le> 2 * bps"
    using allowed_le_tokens[of tk "length (data s) - idx s"] tk1 by (simp add: a_def)
  show ?thesis
    using True tk0 tk1 nxt deb
    by (auto simp: flush_step_def bucket_inv_def capacity_def Let_def now_def[symmetric]
        tk_def[symmetric] a_def[symmetric] split: option.splits)
qed

lemma bucket_inv_step:
  "clock_ok env \<Longrightarrow> 0 < bps \<Longrightarrow> bucket_inv env bps s \<Longrightarrow>
   bucket_inv env bps (relay_step env bps s)"
  by (simp add: relay_step_def bucket_inv_read_step bucket_inv_flush_step split: pc.splits)

lemma bucket_inv_start:
  "clock_ok env \<Longrightarrow> 0 < rate_kbps \<Longrightarrow>
   bucket_inv env (bytes_per_second rate_kbps) (relay_start env rate_kbps)"
  using bps_pos[of rate_kbps]
  by (simp add: bucket_inv_def relay_start_def blank_def capacity_def clock_ok_def)

lemma bucket_inv_run:
  "clock_ok env \<Longrightarrow> 0 < rate_kbps \<Longrightarrow>
   bucket_inv env (bytes_per_second rate_kbps) (token_bucket_copy env rate_kbps n)"
  by (induction n) (simp_all add: bucket_inv_start bucket_inv_step bps_pos)

text \<open>
  C2. With a rate above zero and a clock that never goes backwards, the bucket starts
  with one second of allowance, \<open>tokens = bytes_per_second\<close>, its capacity is twice the
  refill rate, and after any number of passes through the loops, whatever the reads,
  the grants and the elapsed times were, \<open>0 \<le> tokens \<le> capacity\<close>.
\<close>

theorem tokens_within_capacity:
  assumes "clock_ok env" and "0 < rate_kbps"
  shows "tokens (token_bucket_copy env rate_kbps 0) = bytes_per_second rate_kbps
       \<and> capacity (bytes_per_second rate_kbps) = 2 * bytes_per_second rate_kbps
       \<and> (\<forall>n. 0 \<le> tokens (token_bucket_copy env rate_kbps n)
             \<and> tokens (token_bucket_copy env rate_kbps n) \<le> capacity (bytes_per_second rate_kbps))"
  using assms bucket_inv_run[of env rate_kbps]
  by (simp add: bucket_inv_def relay_start_def blank_def capacity_def)

theorem tokens_within_capacity_witness:
  "clock_ok steady_env \<and> (0::real) < 8
   \<and> tokens (token_bucket_copy steady_env 8 0) = 1000
   \<and> capacity (bytes_per_second 8) = 2000
   \<and> (\<forall>n. 0 \<le> tokens (token_bucket_copy steady_env 8 n)
           \<and> tokens (token_bucket_copy steady_env 8 n) \<le> 2000)"
  using tokens_within_capacity [of steady_env 8]
  by (simp add: clock_ok_def steady_env_def bytes_per_second_def KBPS_TO_BPS_def capacity_def)

subsection \<open>The rate bound\<close>









lemma steady_20:
  "pc (token_bucket_copy steady_env (8/1000) 20) = Finished Eof
   \<and> last_ts (token_bucket_copy steady_env (8/1000) 20) = 10
   \<and> written (token_bucket_copy steady_env (8/1000) 20)
     = [''he'', ''l'', ''l'', ''o'', '' '', ''w'', ''o'', ''r'', ''l'', ''d'']"
  by (simp add: numeral_eq_Suc steady_env_def relay_defs)





subsection \<open>The bytes written are the bytes read\<close>

lemma flow_inv_read_step: "pc s = Reading \<Longrightarrow> flow_inv s \<Longrightarrow> flow_inv (read_step env s)"
  by (auto simp: flow_inv_def read_step_def Let_def at_boundary_def split: sum.splits)

lemma take_drop_chunk: "i \<le> length xs \<Longrightarrow> take k (drop i xs) @ drop (i + k) xs = drop i xs"
  by (metis add.commute append_take_drop_id drop_drop)

lemma flow_inv_flush_step:
  assumes fl: "pc s = Flushing" and inv: "flow_inv s"
  shows "flow_inv (flush_step env bps s)"
proof (cases "idx s < length (data s)")
  case False
  with inv fl show ?thesis by (simp add: flush_step_def flow_inv_def)
next
  case True
  define tk where "tk = refill bps (monotonic env (n_clock s) - last_ts s) (tokens s)"
  define a where "a = allowed_bytes tk (length (data s) - idx s)"
  from inv fl have eq: "concat (written s) @ drop (idx s) (data s) = concat (received s)"
    by (simp add: flow_inv_def)
  have le: "idx s + nat a \<le> length (data s)"
    using allowed_le_remaining[of tk "length (data s) - idx s"] True by (simp add: a_def)
  have cat: "take (nat a) (drop (idx s) (data s)) @ drop (idx s + nat a) (data s)
             = drop (idx s) (data s)"
    using True by (simp add: take_drop_chunk)
  show ?thesis
    using True fl eq le cat
    by (auto simp: flush_step_def flow_inv_def Let_def tk_def[symmetric] a_def[symmetric]
        at_boundary_def split: option.splits)
qed

lemma flow_inv_step: "flow_inv s \<Longrightarrow> flow_inv (relay_step env bps s)"
  by (simp add: relay_step_def flow_inv_read_step flow_inv_flush_step split: pc.splits)

lemma flow_inv_start: "flow_inv (relay_start env rate_kbps)"
  by (simp add: flow_inv_def relay_start_def blank_def split: option.splits)

lemma flow_inv_run: "flow_inv (token_bucket_copy env rate_kbps n)"
  by (induction n) (simp_all add: flow_inv_start flow_inv_step)

lemma received_read_step:
  "\<forall>d \<in> set (received s). d \<noteq> [] \<and> length d \<le> 8192 \<Longrightarrow>
   \<forall>d \<in> set (received (read_step env s)). d \<noteq> [] \<and> length d \<le> 8192"
  by (auto simp: read_step_def Let_def split: sum.splits)

lemma received_flush_step: "received (flush_step env bps s) = received s"
  by (simp add: flush_step_def Let_def split: option.splits)

lemma received_step:
  "\<forall>d \<in> set (received s). d \<noteq> [] \<and> length d \<le> 8192 \<Longrightarrow>
   \<forall>d \<in> set (received (relay_step env bps s)). d \<noteq> [] \<and> length d \<le> 8192"
  using received_read_step[of s env]
  by (simp add: relay_step_def received_flush_step split: pc.splits)

lemma received_run:
  "\<forall>d \<in> set (received (token_bucket_copy env rate_kbps n)). d \<noteq> [] \<and> length d \<le> 8192"
proof (induction n)
  case 0
  show ?case by (simp add: relay_start_def blank_def split: option.splits)
next
  case (Suc n)
  then show ?case using received_step by simp
qed

lemma eof_step:
  "pc s = Reading \<Longrightarrow> read_result env (n_read s) = Inr [] \<Longrightarrow>
   pc (relay_step env bps s) = Finished Eof"
  by (simp add: relay_step_def read_step_def)

text \<open>
  A run in which nothing raises can only end on a zero-length read or by the refusal of a
  rate of zero or less: these are the endings without an error or a cancellation.
\<close>

lemma ends_cleanly_read_step:
  "error_free env \<Longrightarrow> pc s = Reading \<Longrightarrow> ends_cleanly (read_step env s)"
proof -
  assume ef: "error_free env" and "pc s = Reading"
  from ef obtain bs where "read_result env (n_read s) = Inr bs"
    unfolding error_free_def by blast
  then show ?thesis by (simp add: ends_cleanly_def read_step_def Let_def)
qed

lemma ends_cleanly_flush_step:
  "error_free env \<Longrightarrow> pc s = Flushing \<Longrightarrow> ends_cleanly (flush_step env bps s)"
  by (simp add: ends_cleanly_def flush_step_def Let_def error_free_def)

lemma ends_cleanly_step:
  "error_free env \<Longrightarrow> ends_cleanly s \<Longrightarrow> ends_cleanly (relay_step env bps s)"
  by (simp add: relay_step_def ends_cleanly_read_step ends_cleanly_flush_step split: pc.splits)

lemma ends_cleanly_run:
  "error_free env \<Longrightarrow> ends_cleanly (token_bucket_copy env rate_kbps n)"
proof (induction n)
  case 0
  then show ?case by (simp add: ends_cleanly_def relay_start_def blank_def error_free_def)
next
  case (Suc n)
  then show ?case by (simp add: ends_cleanly_step)
qed

lemma error_free_ending:
  "error_free env \<Longrightarrow> relay_result env rate_kbps n = Some e \<Longrightarrow> e = Eof \<or> e = Refused"
  using ends_cleanly_run[of env rate_kbps n]
  by (auto simp: relay_result_def ends_cleanly_def split: pc.splits)

lemma steady_3:
  "pc (token_bucket_copy steady_env (8/1000) 3) = Flushing
   \<and> idx (token_bucket_copy steady_env (8/1000) 3) = 3
   \<and> data (token_bucket_copy steady_env (8/1000) 3) = ''hello world''
   \<and> written (token_bucket_copy steady_env (8/1000) 3) = [''he'', ''l'']
   \<and> received (token_bucket_copy steady_env (8/1000) 3) = [''hello world'']"
  by (simp add: numeral_eq_Suc steady_env_def relay_defs)

lemma steady_12:
  "pc (token_bucket_copy steady_env (8/1000) 12) = Reading
   \<and> n_read (token_bucket_copy steady_env (8/1000) 12) = 1"
  by (simp add: numeral_eq_Suc steady_env_def relay_defs)

text \<open>
  C5. After any number of passes: when the relay has ended on a zero-length read (or had
  nothing to do), and whenever it is about to issue a read, the concatenation of the chunks
  written equals the concatenation of the reads; in the middle of a read, the chunks written
  followed by the unsent rest of that read (from the offset on) equal the reads, so that
  nothing is lost, repeated or reordered and the offset is the number of bytes of the
  current read already written; every read returned between one and 8192 bytes; and a
  zero-length read at the head of the outer loop ends the relay by a normal return.
\<close>

theorem relay_keeps_stream:
  "(pc (token_bucket_copy env rate_kbps n) \<in> {Finished Eof, Finished Refused, Reading} \<longrightarrow>
      concat (written (token_bucket_copy env rate_kbps n))
      = concat (received (token_bucket_copy env rate_kbps n)))
   \<and> (pc (token_bucket_copy env rate_kbps n) = Flushing \<longrightarrow>
      idx (token_bucket_copy env rate_kbps n) \<le> length (data (token_bucket_copy env rate_kbps n))
      \<and> concat (written (token_bucket_copy env rate_kbps n))
        @ drop (idx (token_bucket_copy env rate_kbps n)) (data (token_bucket_copy env rate_kbps n))
        = concat (received (token_bucket_copy env rate_kbps n)))
   \<and> (\<forall>d \<in> set (received (token_bucket_copy env rate_kbps n)). d \<noteq> [] \<and> length d \<le> 8192)
   \<and> (pc (token_bucket_copy env rate_kbps n) = Reading
      \<and> read_result env (n_read (token_bucket_copy env rate_kbps n)) = Inr [] \<longrightarrow>
      pc (token_bucket_copy env rate_kbps (Suc n)) = Finished Eof
      \<and> raises Eof = None)"
  using flow_inv_run[of env rate_kbps n] received_run[of env rate_kbps n]
    eof_step[of "token_bucket_copy env rate_kbps n" env]
  by (auto simp: flow_inv_def split: pc.splits)

theorem relay_keeps_stream_witness:
  "pc (token_bucket_copy steady_env (8 / 1000) 20) = Finished Eof
   \<and> concat (written (token_bucket_copy steady_env (8 / 1000) 20)) = ''hello world''
   \<and> concat (received (token_bucket_copy steady_env (8 / 1000) 20)) = ''hello world''
   \<and> pc (token_bucket_copy steady_env (8 / 1000) 3) = Flushing
   \<and> concat (written (token_bucket_copy steady_env (8 / 1000) 3)) @ drop 3 ''hello world''
     = concat (received (token_bucket_copy steady_env (8 / 1000) 3))
   \<and> pc (token_bucket_copy steady_env (8 / 1000) 12) = Reading
   \<and> read_result steady_env 1 = Inr []
   \<and> pc (token_bucket_copy steady_env (8 / 1000) (Suc 12)) = Finished Eof"
proof -
  have r: "read_result steady_env 1 = Inr []" by (simp add: steady_env_def)
  show ?thesis
    using relay_keeps_stream [of steady_env "8 / 1000" 20]
      relay_keeps_stream [of steady_env "8 / 1000" 3]
      relay_keeps_stream [of steady_env "8 / 1000" 12]
      steady_20 steady_3 steady_12 r
    by simp
qed

subsection \<open>A rate of zero or less\<close>






subsection \<open>The size of a write\<close>

lemma flush_step_sleeps:
  assumes "idx s < length (data s)"
    and "allowed_bytes (refill bps (monotonic env (n_clock s) - last_ts s) (tokens s))
           (length (data s) - idx s) \<le> 0"
  shows "written (flush_step env bps s) = written s \<and> idx (flush_step env bps s) = idx s
       \<and> n_sleep (flush_step env bps s) = Suc (n_sleep s)"
  using assms by (simp add: flush_step_def Let_def split: option.splits)

lemma flush_step_writes:
  assumes "idx s < length (data s)"
    and "0 < allowed_bytes (refill bps (monotonic env (n_clock s) - last_ts s) (tokens s))
           (length (data s) - idx s)"
  shows "written (flush_step env bps s) = written s @
           [take (nat (allowed_bytes (refill bps (monotonic env (n_clock s) - last_ts s) (tokens s))
                   (length (data s) - idx s))) (drop (idx s) (data s))]
       \<and> n_sleep (flush_step env bps s) = n_sleep s"
  using assms by (simp add: flush_step_def Let_def split: option.splits)

lemma trickle_1:
  "pc (token_bucket_copy trickle_env (1/1000) 1) = Flushing
   \<and> idx (token_bucket_copy trickle_env (1/1000) 1) = 0
   \<and> data (token_bucket_copy trickle_env (1/1000) 1) = ''x''
   \<and> tokens (token_bucket_copy trickle_env (1/1000) 1) = 1 / 8
   \<and> last_ts (token_bucket_copy trickle_env (1/1000) 1) = 0
   \<and> n_clock (token_bucket_copy trickle_env (1/1000) 1) = 1
   \<and> written (token_bucket_copy trickle_env (1/1000) 1) = []"
  by (simp add: trickle_env_def relay_defs)

lemma steady_1:
  "pc (token_bucket_copy steady_env (8/1000) 1) = Flushing
   \<and> idx (token_bucket_copy steady_env (8/1000) 1) = 0
   \<and> data (token_bucket_copy steady_env (8/1000) 1) = ''hello world''
   \<and> tokens (token_bucket_copy steady_env (8/1000) 1) = 1
   \<and> last_ts (token_bucket_copy steady_env (8/1000) 1) = 0
   \<and> n_clock (token_bucket_copy steady_env (8/1000) 1) = 1
   \<and> written (token_bucket_copy steady_env (8/1000) 1) = []"
  by (simp add: numeral_eq_Suc steady_env_def relay_defs)

text \<open>
  C6. In a pass through the inner loop with bytes left to send (rate above zero, clock
  never backwards), the amount the code computes on line 83 from the refilled tokens is
  the specification's \<open>floor(min(tokens, 16384, remaining))\<close>; it is at least zero, at
  most 16384, at most the remaining bytes and at most the tokens; when it is zero nothing
  is written, the offset stays and the relay sleeps; otherwise exactly one chunk of that
  many bytes, taken at the offset, is written, without a sleep.
\<close>

theorem granted_amount:
  fixes env rate_kbps n
  defines "s \<equiv> token_bucket_copy env rate_kbps n"
    and "s' \<equiv> token_bucket_copy env rate_kbps (Suc n)"
  defines "tk \<equiv> refill (bytes_per_second rate_kbps) (monotonic env (n_clock s) - last_ts s)
                   (tokens s)"
  defines "g \<equiv> affordable tk (16 * 1024) (length (data s) - idx s)"
  assumes ck: "clock_ok env" and pos: "0 < rate_kbps"
    and fl: "pc s = Flushing" and more: "idx s < length (data s)"
  shows "allowed_bytes tk (length (data s) - idx s) = g
       \<and> 0 \<le> g \<and> g \<le> 16384 \<and> g \<le> int (length (data s) - idx s) \<and> of_int g \<le> tk
       \<and> (g = 0 \<longrightarrow> written s' = written s \<and> idx s' = idx s \<and> n_sleep s' = Suc (n_sleep s))
       \<and> (0 < g \<longrightarrow> written s' = written s @ [take (nat g) (drop (idx s) (data s))]
                    \<and> length (take (nat g) (drop (idx s) (data s))) = nat g
                    \<and> n_sleep s' = n_sleep s)"
proof -
  define a where "a = allowed_bytes tk (length (data s) - idx s)"
  have b: "bucket_inv env (bytes_per_second rate_kbps) s"
    unfolding s_def using ck pos by (rule bucket_inv_run)
  have tk0: "0 \<le> tk"
    unfolding tk_def using b bps_pos[OF pos]
    by (intro refill_nonneg) (simp_all add: bucket_inv_def)
  have ag: "a = g" unfolding a_def g_def using allowed_is_affordable[OF tk0] by simp
  have g0: "0 \<le> g" unfolding g_def affordable_def using tk0 by simp
  have g1: "g \<le> 16384" using allowed_le_max_chunk[of tk "length (data s) - idx s"] ag
    by (simp add: a_def max_chunk_def)
  have g2: "g \<le> int (length (data s) - idx s)"
    using allowed_le_remaining[of tk "length (data s) - idx s"] ag by (simp add: a_def)
  have g3: "of_int g \<le> tk" unfolding g_def affordable_def
    by (metis min.cobounded1 of_int_floor_le order_trans floor_mono)
  have step: "s' = flush_step env (bytes_per_second rate_kbps) s"
    using fl by (simp add: s'_def s_def relay_step_def)
  have sl: "g = 0 \<Longrightarrow> written s' = written s \<and> idx s' = idx s \<and> n_sleep s' = Suc (n_sleep s)"
    using flush_step_sleeps[OF more, of "bytes_per_second rate_kbps" env] ag
    by (simp add: step a_def tk_def)
  have wr: "0 < g \<Longrightarrow> written s' = written s @ [take (nat g) (drop (idx s) (data s))]
           \<and> n_sleep s' = n_sleep s"
    using flush_step_writes[OF more, of "bytes_per_second rate_kbps" env] ag
    by (simp add: step a_def tk_def)
  have ln: "0 < g \<Longrightarrow> length (take (nat g) (drop (idx s) (data s))) = nat g"
    using chunk_length[of tk "data s" "idx s"] ag by (simp add: a_def del: length_take)
  show ?thesis using ag g0 g1 g2 g3 sl wr ln by (simp add: a_def)
qed

theorem granted_amount_witness:
  "clock_ok steady_env \<and> (0::real) < 8 / 1000
   \<and> pc (token_bucket_copy steady_env (8 / 1000) 1) = Flushing
   \<and> idx (token_bucket_copy steady_env (8 / 1000) 1)
     < length (data (token_bucket_copy steady_env (8 / 1000) 1))
   \<and> affordable 2 (16 * 1024) 11 = 2
   \<and> allowed_bytes 2 11 = 2
   \<and> written (token_bucket_copy steady_env (8 / 1000) (Suc 1)) = [''he'']
   \<and> n_sleep (token_bucket_copy steady_env (8 / 1000) (Suc 1))
     = n_sleep (token_bucket_copy steady_env (8 / 1000) 1)
   \<and> clock_ok trickle_env \<and> (0::real) < 1 / 1000
   \<and> pc (token_bucket_copy trickle_env (1 / 1000) 1) = Flushing
   \<and> idx (token_bucket_copy trickle_env (1 / 1000) 1)
     < length (data (token_bucket_copy trickle_env (1 / 1000) 1))
   \<and> affordable (1 / 4) (16 * 1024) 1 = 0
   \<and> written (token_bucket_copy trickle_env (1 / 1000) (Suc 1)) = []
   \<and> n_sleep (token_bucket_copy trickle_env (1 / 1000) (Suc 1))
     = Suc (n_sleep (token_bucket_copy trickle_env (1 / 1000) 1))"
proof -
  have r1: "(0::real) < 8 / 1000" and r2: "(0::real) < 1 / 1000" by simp_all
  have s1: "pc (token_bucket_copy steady_env (8 / 1000) 1) = Flushing"
    "idx (token_bucket_copy steady_env (8 / 1000) 1)
     < length (data (token_bucket_copy steady_env (8 / 1000) 1))"
    using steady_1 by simp_all
  have k1: "refill (bytes_per_second (8 / 1000))
      (monotonic steady_env (n_clock (token_bucket_copy steady_env (8 / 1000) 1))
        - last_ts (token_bucket_copy steady_env (8 / 1000) 1))
      (tokens (token_bucket_copy steady_env (8 / 1000) 1)) = 2"
    using steady_1
    by (simp add: refill_def bytes_per_second_def KBPS_TO_BPS_def steady_env_def)
  have l1: "length (data (token_bucket_copy steady_env (8 / 1000) 1))
      - idx (token_bucket_copy steady_env (8 / 1000) 1) = 11"
    using steady_1 by simp
  have a1: "affordable 2 (16 * 1024) 11 = 2"
    by (simp add: affordable_def)
  have d1: "take (nat 2) (drop (idx (token_bucket_copy steady_env (8 / 1000) 1))
      (data (token_bucket_copy steady_env (8 / 1000) 1))) = ''he''"
    using steady_1 by simp
  have w1: "written (token_bucket_copy steady_env (8 / 1000) 1) = []"
    using steady_1 by simp
  note g = granted_amount [OF steady_clock_ok r1 s1, unfolded k1 l1 a1 d1 w1]
  from g have c1: "allowed_bytes 2 11 = 2"
    "written (token_bucket_copy steady_env (8 / 1000) (Suc 1)) = [''he'']"
    "n_sleep (token_bucket_copy steady_env (8 / 1000) (Suc 1))
     = n_sleep (token_bucket_copy steady_env (8 / 1000) 1)"
    by simp_all
  have s2: "pc (token_bucket_copy trickle_env (1 / 1000) 1) = Flushing"
    "idx (token_bucket_copy trickle_env (1 / 1000) 1)
     < length (data (token_bucket_copy trickle_env (1 / 1000) 1))"
    using trickle_1 by simp_all
  have k2: "refill (bytes_per_second (1 / 1000))
      (monotonic trickle_env (n_clock (token_bucket_copy trickle_env (1 / 1000) 1))
        - last_ts (token_bucket_copy trickle_env (1 / 1000) 1))
      (tokens (token_bucket_copy trickle_env (1 / 1000) 1)) = 1 / 4"
    using trickle_1
    by (simp add: refill_def bytes_per_second_def KBPS_TO_BPS_def trickle_env_def)
  have l2: "length (data (token_bucket_copy trickle_env (1 / 1000) 1))
      - idx (token_bucket_copy trickle_env (1 / 1000) 1) = 1"
    using trickle_1 by simp
  have a2: "affordable (1 / 4) (16 * 1024) 1 = 0"
    by (simp add: affordable_def)
  have w2: "written (token_bucket_copy trickle_env (1 / 1000) 1) = []"
    using trickle_1 by simp
  note h = granted_amount [OF trickle_clock_ok r2 s2, unfolded k2 l2 a2 w2]
  from h have c2: "written (token_bucket_copy trickle_env (1 / 1000) (Suc 1)) = []"
    "n_sleep (token_bucket_copy trickle_env (1 / 1000) (Suc 1))
     = Suc (n_sleep (token_bucket_copy trickle_env (1 / 1000) 1))"
    by simp_all
  show ?thesis
    using steady_clock_ok trickle_clock_ok r1 r2 s1 s2 a1 a2 c1 c2 by simp
qed

subsection \<open>Exceptions\<close>

lemma only_cancel_read_step: "only_cancel s \<Longrightarrow> pc s = Reading \<Longrightarrow> only_cancel (read_step env s)"
  by (auto simp: only_cancel_def read_step_def Let_def at_boundary_def split: sum.splits)

lemma only_cancel_flush_step:
  "only_cancel s \<Longrightarrow> pc s = Flushing \<Longrightarrow> only_cancel (flush_step env bps s)"
  by (auto simp: only_cancel_def flush_step_def Let_def at_boundary_def split: option.splits)

lemma only_cancel_step: "only_cancel s \<Longrightarrow> only_cancel (relay_step env bps s)"
  by (simp add: relay_step_def only_cancel_read_step only_cancel_flush_step split: pc.splits)

lemma only_cancel_start: "0 < rate_kbps \<Longrightarrow> only_cancel (relay_start env rate_kbps)"
  by (simp add: only_cancel_def relay_start_def blank_def)

lemma only_cancel_run: "0 < rate_kbps \<Longrightarrow> only_cancel (token_bucket_copy env rate_kbps n)"
  by (induction n) (simp_all add: only_cancel_step only_cancel_start)

text \<open>
  Inside the \<^verbatim>\<open>try\<close> block the relay behaves as its handlers say: with a rate above zero a
  finished run has returned or has raised \<^verbatim>\<open>CancelledError\<close>, nothing else.
\<close>

lemma positive_rate_propagates_only_cancellation:
  "0 < rate_kbps \<Longrightarrow> relay_result env rate_kbps n = Some e \<Longrightarrow>
   raises e = None \<or> raises e = Some CancelledError"
  using only_cancel_run[of rate_kbps env n]
  by (cases e) (auto simp: relay_result_def only_cancel_def split: pc.splits)

text \<open>
  C7, at the input where the code departs from it: the relay started with a rate of zero
  on a writer whose connection is already lost. The drain of line 49 is outside the
  \<^verbatim>\<open>try\<close> block, so its \<^verbatim>\<open>ConnectionResetError\<close> leaves the coroutine, and the
  writer is not closed.
\<close>

theorem refused_relay_raises_reset:
  "relay_result lost_env 0 0 = Some (Propagated ConnectionResetError)
   \<and> raises (Propagated ConnectionResetError) = Some ConnectionResetError
   \<and> writer_closed (token_bucket_copy lost_env 0 0) = False
   \<and> n_read (token_bucket_copy lost_env 0 0) = 0"
  by (simp add: relay_result_def relay_start_def lost_env_def blank_def)

subsection \<open>Kilobits per second to bytes per second\<close>

text \<open>
  C9. The refill rate the relay runs with is \<open>rate_kbps \<times> 1000 / 8\<close> bytes per second
  (1000 bits to the kilobit): it is what every pass of the loops is given, and 8 kbps
  is exactly 1000 bytes per second.
\<close>

theorem kbps_to_bytes_per_second:
  "bytes_per_second rate_kbps = rate_kbps * 1000 / 8
   \<and> bytes_per_second 8 = 1000
   \<and> bytes_per_second 8 \<noteq> 8 * 1024 / 8
   \<and> token_bucket_copy env rate_kbps (Suc n)
     = relay_step env (rate_kbps * 1000 / 8) (token_bucket_copy env rate_kbps n)"
  by (simp add: bytes_per_second_def KBPS_TO_BPS_def)

section \<open>Properties of the request handler\<close>

lemmas text_defs = decode_ignore_def is_space_def strip_def split_def upper_def lower_def
  upper_char_def lower_char_def startswith_def has_colon_def before_colon_def after_colon_def
  split_crlf_def is_digit_def int_of_str_def CRLF_def char_of_eq_iff Let_def













lemma unreachable_run:
  "handle_client unreachable_env =
     (Returned, [ClientWrite status_200, Connect ''example.invalid'' 443,
                 ClientWrite status_502, ClientClose])"
  by (simp add: handle_client_def read_request_def unreachable_env_def connect_request_def
      handle_tunnel_def text_defs)





text \<open>
  Every \<^verbatim>\<open>CONNECT\<close> request is answered with the \<^verbatim>\<open>200\<close> status line first; the
  connection to the target is attempted after it.
\<close>

lemma connect_writes_200_first:
  assumes "read_request env = Request ''CONNECT'' target headers"
  shows "\<exists>res rest. handle_client env = (res, ClientWrite status_200 # rest)
                   \<and> (res = Returned \<longrightarrow> connect_attempts rest \<noteq> [])"
  using assms
  by (auto simp: handle_client_def connect_request_def handle_tunnel_def Let_def
      split: option.splits prod.splits if_splits)

text \<open>
  C1, at the input where the code departs from it: a \<^verbatim>\<open>CONNECT\<close> to a target whose
  connection attempt fails. The client is sent \<^verbatim>\<open>200 Connection established\<close> before
  the attempt, then the \<^verbatim>\<open>502 Bad Gateway\<close>, and the connection is closed.
\<close>

theorem connect_unreachable_gets_200_then_502:
  "read_request unreachable_env
   = Request ''CONNECT'' ''example.invalid:443''
       (''CONNECT example.invalid:443 HTTP/1.1'' @ CRLF @ CRLF)
   \<and> open_connection unreachable_env ''example.invalid'' 443 = Some OtherException
   \<and> handle_client unreachable_env =
     (Returned, [ClientWrite status_200, Connect ''example.invalid'' 443,
                 ClientWrite status_502, ClientClose])
   \<and> client_writes (snd (handle_client unreachable_env)) = [status_200, status_502]"
proof -
  have r: "read_request unreachable_env
   = Request ''CONNECT'' ''example.invalid:443''
       (''CONNECT example.invalid:443 HTTP/1.1'' @ CRLF @ CRLF)"
    by (simp add: read_request_def unreachable_env_def text_defs)
  have o: "open_connection unreachable_env ''example.invalid'' 443 = Some OtherException"
    by (simp add: unreachable_env_def)
  show ?thesis using r o unreachable_run by simp
qed

end
